theory Spec2Isabelle
  imports Main "HOL-Library.Sublist"
begin

section \<open>The git requirement check of horusec\<close>

text \<open>
  The source is \<^verbatim>\<open>internal/controllers/requirements/git/git.go\<close>. A Go string is a
  sequence of bytes, and so is a \<^typ>\<open>string\<close> here; \<^verbatim>\<open>len\<close> and the slices of the
  source count bytes.
\<close>

subsection \<open>The library functions the source calls\<close>

text \<open>
  \<^verbatim>\<open>strings.ToLower\<close>, on the ASCII letters: \<^verbatim>\<open>A\<close> to \<^verbatim>\<open>Z\<close> (65 to 90) move by 32, every
  other byte stays. This is the library function on every ASCII string, which the banner
  of git is; the Unicode case tables for bytes from 128 on are not modelled.
\<close>

definition toLowerByte :: "char \<Rightarrow> char" where
  "toLowerByte c =
     (if 65 \<le> (of_char c :: nat) \<and> (of_char c :: nat) \<le> 90
      then char_of ((of_char c :: nat) + 32) else c)"

definition ToLower :: "string \<Rightarrow> string" where
  "ToLower s = map toLowerByte s"

text \<open>
  \<^verbatim>\<open>strings.Index(s, substr)\<close>: the offset of the first occurrence of \<^verbatim>\<open>substr\<close> in
  \<^verbatim>\<open>s\<close>; Go's \<^verbatim>\<open>-1\<close> is \<open>None\<close>.
\<close>

fun Index :: "string \<Rightarrow> string \<Rightarrow> nat option" where
  "Index [] substr = (if substr = [] then Some 0 else None)"
| "Index (c # cs) substr =
     (if prefix substr (c # cs) then Some 0 else map_option Suc (Index cs substr))"

text \<open>\<^verbatim>\<open>strings.Contains(s, substr)\<close> is \<^verbatim>\<open>Index(s, substr) >= 0\<close>.\<close>

definition Contains :: "string \<Rightarrow> string \<Rightarrow> bool" where
  "Contains s substr = (Index s substr \<noteq> None)"

text \<open>
  \<^verbatim>\<open>strings.Split(s, sep)\<close>: the pieces of \<^verbatim>\<open>s\<close> between the occurrences of \<^verbatim>\<open>sep\<close>,
  found from the left and not overlapping; a string without \<^verbatim>\<open>sep\<close> is its own single
  piece. With an empty separator the library cuts after every character.
\<close>

function Split :: "string \<Rightarrow> string \<Rightarrow> string list" where
  "Split s sep =
     (if sep = [] then map (\<lambda>c. [c]) s
      else case Index s sep of
             None \<Rightarrow> [s]
           | Some m \<Rightarrow> take m s # Split (drop (m + length sep) s) sep)"
  by pat_completeness auto
termination
proof (relation "measure (\<lambda>(s, sep). length s)")
  show "wf (measure (\<lambda>(s, sep). length s))"
    by simp
next
  fix s sep :: string and m :: nat
  assume sep: "sep \<noteq> []" and idx: "Index s sep = Some m"
  have bound: "Index t sep = Some k \<Longrightarrow> k + length sep \<le> length t" for t k
  proof (induction t arbitrary: k)
    case Nil
    then show ?case by (simp split: if_splits)
  next
    case (Cons c cs)
    show ?case
    proof (cases "prefix sep (c # cs)")
      case True
      then have "length sep \<le> length (c # cs)"
        by (rule prefix_length_le)
      with True Cons.prems show ?thesis by simp
    next
      case False
      with Cons.prems obtain j where "Index cs sep = Some j" and "k = Suc j"
        by auto
      with Cons.IH show ?thesis by fastforce
    qed
  qed
  from bound [OF idx] sep have "0 < length s" and "0 < m + length sep" and "m + length sep \<le> length s"
    by auto
  then show "((drop (m + length sep) s, sep), (s, sep)) \<in> measure (\<lambda>(s, sep). length s)"
    by simp
qed

declare Split.simps [simp del]

text \<open>
  \<^verbatim>\<open>strconv.Atoi\<close>: an optional sign, then one decimal digit or more, and nothing else;
  the value has to fit the 64-bit \<^verbatim>\<open>int\<close>.
\<close>

datatype NumError = ErrSyntax | ErrRange

definition isDigit :: "char \<Rightarrow> bool" where
  "isDigit ch = (48 \<le> (of_char ch :: nat) \<and> (of_char ch :: nat) \<le> 57)"

fun digits :: "int \<Rightarrow> string \<Rightarrow> int" where
  "digits n [] = n"
| "digits n (ch # s) = digits (n * 10 + (int (of_char ch) - 48)) s"

definition Atoi :: "string \<Rightarrow> NumError + int" where
  "Atoi s0 =
     (if s0 = [] then Inl ErrSyntax
      else let s = (if hd s0 = CHR ''-'' \<or> hd s0 = CHR ''+'' then tl s0 else s0) in
        if s = [] \<or> \<not> list_all isDigit s then Inl ErrSyntax
        else let n = (if hd s0 = CHR ''-'' then - digits 0 s else digits 0 s) in
          if n < - (2 ^ 63) \<or> 2 ^ 63 - 1 < n then Inl ErrRange else Inr n)"

subsection \<open>Run-time panics\<close>

text \<open>
  A Go function returns, or panics. Indexing a slice outside its length and slicing a
  string outside \<^verbatim>\<open>0 <= i <= j <= len(s)\<close> panic.
\<close>

datatype 'a outcome = Return 'a | Panic

definition index :: "'a list \<Rightarrow> nat \<Rightarrow> 'a outcome" where
  "index xs i = (if i < length xs then Return (xs ! i) else Panic)"

definition slice :: "string \<Rightarrow> nat \<Rightarrow> nat \<Rightarrow> string outcome" where
  "slice s i j = (if i \<le> j \<and> j \<le> length s then Return (take (j - i) (drop i s)) else Panic)"

subsection \<open>Constants, errors and the log\<close>

definition MinVersionGitAccept :: int where
  "MinVersionGitAccept = 2"

definition MinSubVersionGitAccept :: int where
  "MinSubVersionGitAccept = 1"

text \<open>
  What \<^verbatim>\<open>exec.Command("git", "--version").CombinedOutput()\<close> gives back: the bytes
  captured, and the error of the run if there was one (the executable was not found, or
  the process ended with a failure).
\<close>

datatype ExecError = NotFound string | ExitError int

type_synonym CombinedOutput = "string \<times> ExecError option"

datatype error =
    ErrMinVersion
  | ErrGitNotInstalled
  | ErrGitLowerVersion
  | ErrExec ExecError

text \<open>The messages of the package \<^verbatim>\<open>messages\<close>, and the entries the logger receives.\<close>

datatype message =
    MsgErrorWhenCheckRequirementsGit
  | MsgErrorWhenGitIsLowerVersion
  | MsgInfoHowToInstallGit

datatype entry = LogErrorWithLevel message error | LogInfo message

type_synonym logger = "entry list"

text \<open>The receiver: a struct without fields.\<close>

datatype RequirementGit = RequirementGit

subsection \<open>The methods of \<^verbatim>\<open>RequirementGit\<close>\<close>

definition marker :: string where
  "marker = ''git version ''"

definition getVersionAndSubVersion :: "RequirementGit \<Rightarrow> string \<Rightarrow> (error + int \<times> int) outcome" where
  "getVersionAndSubVersion r fullVersion =
     (case slice fullVersion 0 1 of
        Panic \<Rightarrow> Panic
      | Return major \<Rightarrow>
          (case Atoi major of
             Inl err \<Rightarrow> Return (Inl ErrGitNotInstalled)
           | Inr version \<Rightarrow>
               (case slice fullVersion 2 4 of
                  Panic \<Rightarrow> Panic
                | Return minor \<Rightarrow>
                    (case Atoi minor of
                       Inl err \<Rightarrow> Return (Inl ErrGitNotInstalled)
                     | Inr subversion \<Rightarrow> Return (Inr (version, subversion))))))"

definition checkIfContainsGitVersion :: "RequirementGit \<Rightarrow> string \<Rightarrow> bool" where
  "checkIfContainsGitVersion r response = Contains (ToLower response) marker"

definition extractGitVersionFromString :: "RequirementGit \<Rightarrow> string \<Rightarrow> (error + int \<times> int) outcome" where
  "extractGitVersionFromString r response =
     (let responseSpited = Split (ToLower response) marker in
      if length responseSpited < 1 \<or> (length responseSpited > 1 \<and> length (responseSpited ! 1) < 3)
      then Return (Inl ErrGitNotInstalled)
      else case index responseSpited 1 of
             Panic \<Rightarrow> Panic
           | Return fullVersion \<Rightarrow> getVersionAndSubVersion r fullVersion)"

definition validateIfGitIsRunningInMinVersion ::
  "RequirementGit \<Rightarrow> string \<Rightarrow> logger \<Rightarrow> error option outcome \<times> logger" where
  "validateIfGitIsRunningInMinVersion r response lg =
     (case extractGitVersionFromString r response of
        Panic \<Rightarrow> (Panic, lg)
      | Return (Inl err) \<Rightarrow> (Return (Some err), lg)
      | Return (Inr (version, subversion)) \<Rightarrow>
          if version < MinVersionGitAccept
          then (Return (Some ErrGitLowerVersion),
                lg @ [LogErrorWithLevel MsgErrorWhenGitIsLowerVersion ErrMinVersion])
          else if version = MinVersionGitAccept \<and> subversion < MinSubVersionGitAccept
          then (Return (Some ErrGitLowerVersion),
                lg @ [LogErrorWithLevel MsgErrorWhenGitIsLowerVersion ErrMinVersion])
          else (Return None, lg))"

definition validateIfGitIsSupported ::
  "RequirementGit \<Rightarrow> string \<Rightarrow> logger \<Rightarrow> error option outcome \<times> logger" where
  "validateIfGitIsSupported r version lg =
     (case validateIfGitIsRunningInMinVersion r version lg of
        (Panic, lg') \<Rightarrow> (Panic, lg')
      | (Return (Some err), lg') \<Rightarrow> (Return (Some err), lg' @ [LogInfo MsgInfoHowToInstallGit])
      | (Return None, lg') \<Rightarrow> (Return None, lg'))"

definition execGitVersion ::
  "RequirementGit \<Rightarrow> CombinedOutput \<Rightarrow> logger \<Rightarrow> (error + string) \<times> logger" where
  "execGitVersion r cmd lg =
     (case cmd of
        (responseBytes, Some err) \<Rightarrow>
          (Inl (ErrExec err), lg @ [LogErrorWithLevel MsgErrorWhenCheckRequirementsGit (ErrExec err)])
      | (responseBytes, None) \<Rightarrow> (Inr (ToLower responseBytes), lg))"

definition validateIfGitIsInstalled ::
  "RequirementGit \<Rightarrow> CombinedOutput \<Rightarrow> logger \<Rightarrow> (error + string) \<times> logger" where
  "validateIfGitIsInstalled r cmd lg =
     (case execGitVersion r cmd lg of
        (Inl err, lg') \<Rightarrow> (Inl err, lg')
      | (Inr response, lg') \<Rightarrow>
          if \<not> checkIfContainsGitVersion r response then (Inl ErrGitNotInstalled, lg')
          else (Inr response, lg'))"

definition ValidateGit ::
  "RequirementGit \<Rightarrow> CombinedOutput \<Rightarrow> logger \<Rightarrow> error option outcome \<times> logger" where
  "ValidateGit r cmd lg =
     (case validateIfGitIsInstalled r cmd lg of
        (Inl err, lg') \<Rightarrow> (Return (Some err), lg')
      | (Inr response, lg') \<Rightarrow> validateIfGitIsSupported r response lg')"

subsection \<open>The checks on the version text\<close>

text \<open>
  The end of \<^verbatim>\<open>extractGitVersionFromString\<close>, as a function of the piece
  \<^verbatim>\<open>responseSpited[1]\<close>: the length check, then \<^verbatim>\<open>getVersionAndSubVersion\<close>. It is
  named here to state lemmas piece by piece; \<open>extract_checkedVersion\<close> below shows that
  it is what the method computes.
\<close>

definition checkedVersion :: "RequirementGit \<Rightarrow> string \<Rightarrow> (error + int \<times> int) outcome" where
  "checkedVersion r fullVersion =
     (if length fullVersion < 3 then Return (Inl ErrGitNotInstalled)
      else getVersionAndSubVersion r fullVersion)"

section \<open>Properties\<close>

subsection \<open>The library functions\<close>

lemma toLowerByte_idem: "toLowerByte (toLowerByte c) = toLowerByte c"
  by (simp add: toLowerByte_def)

lemma ToLower_idem: "ToLower (ToLower s) = ToLower s"
  by (simp add: ToLower_def toLowerByte_idem)

lemma marker_not_empty: "marker \<noteq> []"
  by (simp add: marker_def)

lemma Split_without_sep: "sep \<noteq> [] \<Longrightarrow> Index s sep = None \<Longrightarrow> Split s sep = [s]"
  by (simp add: Split.simps)

lemma Split_at_sep:
  "sep \<noteq> [] \<Longrightarrow> Index s sep = Some m \<Longrightarrow>
     Split s sep = take m s # Split (drop (m + length sep) s) sep"
  by (subst Split.simps) simp

lemma hd_Split:
  "sep \<noteq> [] \<Longrightarrow> hd (Split t sep) = (case Index t sep of None \<Rightarrow> t | Some k \<Rightarrow> take k t)"
  by (subst Split.simps) (simp split: option.split)

lemma Split_Cons: "sep \<noteq> [] \<Longrightarrow> \<exists>x xs. Split t sep = x # xs"
  by (subst Split.simps) (simp split: option.split)

subsection \<open>The call chain of \<^verbatim>\<open>ValidateGit\<close>\<close>

text \<open>A failed run returns at once, with the error of the run.\<close>

lemma ValidateGit_exec_failed:
  "ValidateGit r (responseBytes, Some err) lg =
     (Return (Some (ErrExec err)),
      lg @ [LogErrorWithLevel MsgErrorWhenCheckRequirementsGit (ErrExec err)])"
  by (simp add: ValidateGit_def validateIfGitIsInstalled_def execGitVersion_def)

text \<open>After a run without error, everything is decided on the lowercase output.\<close>

lemma ValidateGit_exec_ok:
  "ValidateGit r (responseBytes, None) lg =
     (if Contains (ToLower responseBytes) marker
      then validateIfGitIsSupported r (ToLower responseBytes) lg
      else (Return (Some ErrGitNotInstalled), lg))"
  by (simp add: ValidateGit_def validateIfGitIsInstalled_def execGitVersion_def
      checkIfContainsGitVersion_def ToLower_idem)

lemma extract_ToLower:
  "extractGitVersionFromString r (ToLower response) = extractGitVersionFromString r response"
  by (simp add: extractGitVersionFromString_def ToLower_idem)

lemma supported_ToLower:
  "validateIfGitIsSupported r (ToLower response) lg = validateIfGitIsSupported r response lg"
  by (simp add: validateIfGitIsSupported_def validateIfGitIsRunningInMinVersion_def extract_ToLower)

lemma supported_cases:
  "fst (validateIfGitIsSupported r response lg) =
     (case extractGitVersionFromString r response of
        Panic \<Rightarrow> Panic
      | Return (Inl err) \<Rightarrow> Return (Some err)
      | Return (Inr (version, subversion)) \<Rightarrow>
          if version < 2 \<or> (version = 2 \<and> subversion < 1)
          then Return (Some ErrGitLowerVersion) else Return None)"
  by (simp add: validateIfGitIsSupported_def validateIfGitIsRunningInMinVersion_def
      MinVersionGitAccept_def MinSubVersionGitAccept_def
      split: outcome.split sum.split prod.split)


lemma getVersion_errors:
  "getVersionAndSubVersion r fv = Return (Inl err) \<Longrightarrow> err = ErrGitNotInstalled"
  by (auto simp add: getVersionAndSubVersion_def split: outcome.splits sum.splits)

lemma extract_errors:
  "extractGitVersionFromString r response = Return (Inl err) \<Longrightarrow> err = ErrGitNotInstalled"
  by (auto simp add: extractGitVersionFromString_def Let_def index_def
      dest: getVersion_errors split: if_splits outcome.splits)

text \<open>
  Called on a string without the marker, \<^verbatim>\<open>extractGitVersionFromString\<close> indexes the
  single piece of the split at 1. \<^verbatim>\<open>ValidateGit\<close> never calls it so.
\<close>

lemma extract_without_marker:
  "Index (ToLower response) marker = None \<Longrightarrow> extractGitVersionFromString r response = Panic"
  by (simp add: extractGitVersionFromString_def Split_without_sep marker_not_empty index_def)

text \<open>With the marker, the version is read in the piece after its first occurrence.\<close>

lemma extract_with_marker:
  assumes "Index (ToLower response) marker = Some m"
  shows "extractGitVersionFromString r response =
     (let fullVersion = hd (Split (drop (m + length marker) (ToLower response)) marker) in
      if length fullVersion < 3 then Return (Inl ErrGitNotInstalled)
      else getVersionAndSubVersion r fullVersion)"
proof -
  obtain x xs where "Split (drop (m + length marker) (ToLower response)) marker = x # xs"
    using Split_Cons [OF marker_not_empty] by blast
  then show ?thesis
    using assms
    by (simp add: extractGitVersionFromString_def Split_at_sep marker_not_empty index_def)
qed

lemma extract_parsed_Contains:
  "extractGitVersionFromString r response = Return (Inr v) \<Longrightarrow> Contains (ToLower response) marker"
  by (cases "Index (ToLower response) marker") (simp_all add: extract_without_marker Contains_def)

lemma ValidateGit_parsed:
  assumes "extractGitVersionFromString r responseBytes = Return (Inr (major, minor))"
  shows "fst (ValidateGit r (responseBytes, None) lg) =
        (if major < 2 \<or> (major = 2 \<and> minor < 1)
         then Return (Some ErrGitLowerVersion) else Return None)"
  using assms extract_parsed_Contains [OF assms]
  by (simp add: ValidateGit_exec_ok supported_ToLower supported_cases)


subsection \<open>Banners evaluated\<close>

lemma extract_1_99: "extractGitVersionFromString r ''git version 1.99.0'' = Return (Inr (1, 99))"
  by (cases r) code_simp

lemma extract_2_00: "extractGitVersionFromString r ''git version 2.00.0'' = Return (Inr (2, 0))"
  by (cases r) code_simp

lemma extract_3_5: "extractGitVersionFromString r ''git version 3.5.0'' = Return (Inl ErrGitNotInstalled)"
  by (cases r) code_simp

lemma contains_3_5: "Contains (ToLower ''git version 3.5.0'') marker"
  by code_simp

lemma extract_3_05: "extractGitVersionFromString r ''git version 3.05.0'' = Return (Inr (3, 5))"
  by (cases r) code_simp

subsection \<open>Where the first marker is\<close>







subsection \<open>The version text\<close>

lemma extract_checkedVersion:
  "Index (ToLower response) marker = Some m \<Longrightarrow>
    extractGitVersionFromString r response =
      checkedVersion r (hd (Split (drop (m + length marker) (ToLower response)) marker))"
  by (simp add: extract_with_marker checkedVersion_def)



lemma Atoi_2: "Atoi ''2'' = Inr 2"
  by code_simp

lemma Atoi_01: "Atoi ''01'' = Inr 1"
  by code_simp











text \<open>
  What is refused as it should be: a version text under three bytes, a first byte that is
  no integer, and, when the text has four bytes at least, bytes 2 and 3 that are no
  integer.
\<close>

lemma ValidateGit_unparsable:
  assumes idx: "Index (ToLower responseBytes) marker = Some m"
    and fv: "fullVersion = hd (Split (drop (m + length marker) (ToLower responseBytes)) marker)"
    and bad: "length fullVersion < 3
      \<or> isl (Atoi (take 1 fullVersion))
      \<or> (4 \<le> length fullVersion \<and> isl (Atoi (take 2 (drop 2 fullVersion))))"
  shows "fst (ValidateGit r (responseBytes, None) lg) = Return (Some ErrGitNotInstalled)"
proof -
  have "checkedVersion r fullVersion = Return (Inl ErrGitNotInstalled)"
    using bad
    by (auto simp add: checkedVersion_def getVersionAndSubVersion_def slice_def isl_def
        split: sum.split)
  then have "extractGitVersionFromString r responseBytes = Return (Inl ErrGitNotInstalled)"
    using extract_checkedVersion [OF idx] fv by simp
  then show ?thesis
    using idx by (simp add: ValidateGit_exec_ok Contains_def supported_ToLower supported_cases)
qed

subsection \<open>The banner \<^verbatim>\<open>git version 2.01.0\<close>, followed by anything\<close>

lemma ToLower_append: "ToLower (s @ t) = ToLower s @ ToLower t"
  by (simp add: ToLower_def)

lemma ToLower_banner_2_01: "ToLower ''git version 2.01.0'' = ''git version 2.01.0''"
  by code_simp

lemma hd_Split_after_2_01: "\<exists>v. hd (Split (''2.01.0'' @ t) marker) = ''2.01'' @ v"
  by (cases "Index t marker")
    (simp_all add: hd_Split marker_not_empty, simp_all add: marker_def)

lemma extract_2_01:
  "extractGitVersionFromString r (''git version 2.01.0'' @ rest) = Return (Inr (2, 1))"
proof -
  have "ToLower (''git version 2.01.0'' @ rest) = ''git version 2.01.0'' @ ToLower rest"
    by (simp only: ToLower_append ToLower_banner_2_01)
  then have low: "ToLower (''git version 2.01.0'' @ rest) = marker @ ''2.01.0'' @ ToLower rest"
    by (simp add: marker_def)
  have first: "Index (marker @ ''2.01.0'' @ ToLower rest) marker = Some 0"
    by (simp add: marker_def)
  obtain v where v: "hd (Split (''2.01.0'' @ ToLower rest) marker) = ''2.01'' @ v"
    using hd_Split_after_2_01 by blast
  have "getVersionAndSubVersion r (''2.01'' @ v) = Return (Inr (2, 1))"
    by (simp add: getVersionAndSubVersion_def slice_def Atoi_2 Atoi_01)
  with v show ?thesis
    using extract_with_marker [of "''git version 2.01.0'' @ rest" 0 r] low first
    by (simp add: Let_def marker_def)
qed

subsection \<open>The claims\<close>

text \<open>
  C1 (no panic on any captured output) does not hold of the code. The length check of
  \<^verbatim>\<open>extractGitVersionFromString\<close> lets a version text of exactly three bytes through,
  and \<^verbatim>\<open>fullVersion[2:4]\<close> needs four: the output \<^verbatim>\<open>git version 2.0\<close> passes the
  marker check and the length check, and \<^verbatim>\<open>getVersionAndSubVersion\<close> panics on it,
  so \<^verbatim>\<open>ValidateGit\<close> does.
\<close>

theorem ValidateGit_panics_on_three_bytes:
  "checkIfContainsGitVersion RequirementGit ''git version 2.0''
   \<and> Split (ToLower ''git version 2.0'') marker = ['''', ''2.0'']
   \<and> getVersionAndSubVersion RequirementGit ''2.0'' = Panic
   \<and> ValidateGit RequirementGit (''git version 2.0'', None) [] = (Panic, [])"
  by code_simp

text \<open>
  C2, as stated (a failed run yields \<^verbatim>\<open>ErrGitNotInstalled\<close>), fails: \<^verbatim>\<open>execGitVersion\<close>
  returns the error of the run, and the callers pass it on.
\<close>

theorem ValidateGit_exec_error_is_not_ErrGitNotInstalled:
  "fst (ValidateGit RequirementGit ('''', Some (NotFound ''git'')) []) \<noteq>
     Return (Some ErrGitNotInstalled)"
  by (simp add: ValidateGit_exec_failed)

text \<open>
  C2, amended: when the run fails, \<^verbatim>\<open>ValidateGit\<close> returns the error of the run, and
  the captured bytes have no part in what it returns or logs; when the run does not fail,
  the only errors it returns are \<^verbatim>\<open>ErrGitNotInstalled\<close> and \<^verbatim>\<open>ErrGitLowerVersion\<close>.
\<close>

theorem ValidateGit_exec_error_returned:
  "fst (ValidateGit r (responseBytes, Some err) lg) = Return (Some (ErrExec err))
   \<and> ValidateGit r (responseBytes, Some err) lg = ValidateGit r (otherBytes, Some err) lg
   \<and> fst (ValidateGit r (responseBytes, None) lg) \<in>
      {Panic, Return None, Return (Some ErrGitNotInstalled), Return (Some ErrGitLowerVersion)}"
  by (auto simp add: ValidateGit_exec_failed ValidateGit_exec_ok supported_cases
      dest: extract_errors split: outcome.splits sum.splits)

text \<open>
  C3, as stated (\<^verbatim>\<open>git version 3.5.0\<close> is accepted), fails: the bytes at offsets 2 and 3
  of \<^verbatim>\<open>3.5.0\<close> are \<^verbatim>\<open>5.\<close>, which \<^verbatim>\<open>Atoi\<close> refuses.
\<close>

theorem ValidateGit_3_5_0_not_accepted:
  "fst (ValidateGit RequirementGit (''git version 3.5.0'', None) []) \<noteq> Return None"
  by code_simp

text \<open>
  C3, amended: for \<^verbatim>\<open>git version 3.5.0\<close> the result is \<^verbatim>\<open>ErrGitNotInstalled\<close>; with
  the minor version on two digits, \<^verbatim>\<open>git version 3.05.0\<close>, the versions read are 3 and
  5 and \<^verbatim>\<open>ValidateGit\<close> succeeds, 3 being above the minimum 2.
\<close>

theorem ValidateGit_major_3:
  "fst (ValidateGit r (''git version 3.5.0'', None) lg) = Return (Some ErrGitNotInstalled)
   \<and> extractGitVersionFromString r ''git version 3.05.0'' = Return (Inr (3, 5))
   \<and> fst (ValidateGit r (''git version 3.05.0'', None) lg) = Return None"
  using ValidateGit_parsed [OF extract_3_05] contains_3_5
  by (simp add: ValidateGit_exec_ok supported_ToLower supported_cases extract_3_5 extract_3_05)

text \<open>
  C4: when both versions are read from the output, \<^verbatim>\<open>ValidateGit\<close> returns
  \<^verbatim>\<open>ErrGitLowerVersion\<close> exactly when the major version is below 2, or is 2 with a minor
  version below 1, and \<^verbatim>\<open>nil\<close> otherwise; \<^verbatim>\<open>git version 1.99.0\<close> and
  \<^verbatim>\<open>git version 2.00.0\<close> are both too low.
\<close>

theorem ValidateGit_compares_versions:
  "(extractGitVersionFromString r responseBytes = Return (Inr (major, minor)) \<longrightarrow>
      fst (ValidateGit r (responseBytes, None) lg) =
        (if major < 2 \<or> (major = 2 \<and> minor < 1)
         then Return (Some ErrGitLowerVersion) else Return None))
   \<and> fst (ValidateGit r (''git version 1.99.0'', None) lg) = Return (Some ErrGitLowerVersion)
   \<and> fst (ValidateGit r (''git version 2.00.0'', None) lg) = Return (Some ErrGitLowerVersion)"
proof (intro conjI impI)
  assume "extractGitVersionFromString r responseBytes = Return (Inr (major, minor))"
  then show "fst (ValidateGit r (responseBytes, None) lg) =
        (if major < 2 \<or> (major = 2 \<and> minor < 1)
         then Return (Some ErrGitLowerVersion) else Return None)"
    by (rule ValidateGit_parsed)
next
  show "fst (ValidateGit r (''git version 1.99.0'', None) lg) = Return (Some ErrGitLowerVersion)"
    using ValidateGit_parsed [OF extract_1_99] by simp
next
  show "fst (ValidateGit r (''git version 2.00.0'', None) lg) = Return (Some ErrGitLowerVersion)"
    using ValidateGit_parsed [OF extract_2_00] by simp
qed

theorem ValidateGit_compares_versions_witness:
  "extractGitVersionFromString RequirementGit ''git version 2.34.1'' = Return (Inr (2, 34))
   \<and> fst (ValidateGit RequirementGit (''git version 2.34.1'', None) []) = Return None"
proof -
  have parsed: "extractGitVersionFromString RequirementGit ''git version 2.34.1'' = Return (Inr (2, 34))"
    by code_simp
  from ValidateGit_compares_versions [of RequirementGit "''git version 2.34.1''" 2 34 "[]"] parsed
  show ?thesis
    by simp
qed

text \<open>
  C5 (a version text that cannot be read gives \<^verbatim>\<open>ErrGitNotInstalled\<close>) does not hold of
  the code when the text has exactly three bytes: in \<^verbatim>\<open>git version 2.x\<close> the marker is
  there, the text \<^verbatim>\<open>2.x\<close> is not shorter than three bytes, its first byte is read as 2,
  and what it has from offset 2 on, \<^verbatim>\<open>x\<close>, is no integer; \<^verbatim>\<open>fullVersion[2:4]\<close> is out
  of range and \<^verbatim>\<open>ValidateGit\<close> panics. \<open>ValidateGit_unparsable\<close> above is the part of
  the claim the code keeps.
\<close>

theorem ValidateGit_panics_on_unreadable_minor:
  "Contains (ToLower ''git version 2.x'') marker
   \<and> Split (ToLower ''git version 2.x'') marker = ['''', ''2.x'']
   \<and> Atoi ''2'' = Inr 2
   \<and> Atoi ''x'' = Inl ErrSyntax
   \<and> ValidateGit RequirementGit (''git version 2.x'', None) [] = (Panic, [])"
  by code_simp

text \<open>
  C6: an output whose lowercase form does not contain the marker \<^verbatim>\<open>git version \<close> gives
  \<^verbatim>\<open>ErrGitNotInstalled\<close>, and nothing is logged.
\<close>

theorem ValidateGit_without_marker:
  "\<not> Contains (ToLower responseBytes) marker \<Longrightarrow>
     ValidateGit r (responseBytes, None) lg = (Return (Some ErrGitNotInstalled), lg)"
  by (simp add: ValidateGit_exec_ok)

theorem ValidateGit_without_marker_witness:
  "\<not> Contains (ToLower ''bash: git: command not found'') marker
   \<and> ValidateGit RequirementGit (''bash: git: command not found'', None) [] =
       (Return (Some ErrGitNotInstalled), [])"
proof -
  have absent: "\<not> Contains (ToLower ''bash: git: command not found'') marker"
    by code_simp
  from absent ValidateGit_without_marker [OF absent, of RequirementGit "[]"] show ?thesis
    by simp
qed

text \<open>
  C7: for the output \<^verbatim>\<open>git version 2.01.0\<close> followed by anything (and so for the
  string \<^verbatim>\<open>git version 2.01.0 ...\<close> itself), the versions read are 2 and 1, and
  \<^verbatim>\<open>ValidateGit\<close> succeeds.
\<close>

theorem ValidateGit_accepts_2_01:
  "extractGitVersionFromString r (''git version 2.01.0'' @ rest) = Return (Inr (2, 1))
   \<and> fst (ValidateGit r (''git version 2.01.0'' @ rest, None) lg) = Return None
   \<and> extractGitVersionFromString r ''git version 2.01.0 ...'' = Return (Inr (2, 1))
   \<and> fst (ValidateGit r (''git version 2.01.0 ...'', None) lg) = Return None"
  using extract_2_01 [of r rest] extract_2_01 [of r "'' ...''"]
    ValidateGit_parsed [OF extract_2_01, of r rest lg]
    ValidateGit_parsed [OF extract_2_01, of r "'' ...''" lg]
  by simp

text \<open>
  C8: two captured outputs with the same lowercase form give the same result (and the same
  log entries), whatever the run returned as its error.
\<close>

theorem ValidateGit_case_invariant:
  "ToLower s = ToLower s' \<Longrightarrow> ValidateGit r (s, err) lg = ValidateGit r (s', err) lg"
  by (cases err) (simp_all add: ValidateGit_exec_ok ValidateGit_exec_failed)

theorem ValidateGit_case_invariant_witness:
  "ToLower ''GIT Version 2.01.0'' = ToLower ''git version 2.01.0''
   \<and> ValidateGit RequirementGit (''GIT Version 2.01.0'', None) [] =
       ValidateGit RequirementGit (''git version 2.01.0'', None) []"
proof -
  have same: "ToLower ''GIT Version 2.01.0'' = ToLower ''git version 2.01.0''"
    by code_simp
  from same ValidateGit_case_invariant [OF same, of RequirementGit None "[]"] show ?thesis
    by simp
qed




end
